theory Spec2Isabelle
  imports Main "HOL-Library.Word"
begin

unbundle bit_operations_syntax

section \<open>Types and values as package reflect shows them\<close>

text \<open>
  The binding package walks its target through reflection.  A Go type is a term of \<open>ty\<close>,
  a struct field descriptor (\<open>reflect.StructField\<close>) a term of \<open>StructField\<close>: its Go
  name, its \<open>PkgPath\<close> (empty exactly for exported fields), its type, the values of the
  \<open>form\<close> and \<open>binding\<close> keys of its tag (\<open>formTag\<close> and \<open>bindingTag\<close>: what \<open>Tag.Get\<close>
  returns, empty when the key is missing) and whether it is embedded.  The kinds carry a
  \<open>K\<close> in front of their Go names.  \<open>Basic\<close> is used with the kinds bool, the integers,
  the floats and string, and stands for the predeclared type of that kind;
  \<open>FileHeader\<close> is the opaque struct \<open>multipart.FileHeader\<close>.  Types with a name and
  methods of their own other than structs, interfaces, maps, channels and functions are
  not modelled; \<open>int\<close> and \<open>uint\<close> have 64 bits.
\<close>

datatype Kind = KInvalid | KBool | KInt | KInt8 | KInt16 | KInt32 | KInt64
  | KUint | KUint8 | KUint16 | KUint32 | KUint64 | KFloat32 | KFloat64
  | KArray | KInterface | KPtr | KSlice | KString | KStruct

datatype ty = Basic Kind | SliceOf ty | ArrayOf nat ty | PtrTo ty
  | StructOf "StructField list" | FileHeader
and StructField =
  StructField (Name: string) (PkgPath: string) (Type: ty) (formTag: string) (bindingTag: string)
    (Anonymous: bool)

fun KindOf :: "ty \<Rightarrow> Kind" where
  "KindOf (Basic k) = k"
| "KindOf (SliceOf t) = KSlice"
| "KindOf (ArrayOf n t) = KArray"
| "KindOf (PtrTo t) = KPtr"
| "KindOf (StructOf fs) = KStruct"
| "KindOf FileHeader = KStruct"

text \<open>
  A value: a nil slice is \<open>VSlice None\<close>, a nil pointer \<open>VPtr None\<close>; a float is its
  IEEE-754 binary64 bit pattern; a file header is known by its file name only.
\<close>

datatype val = VBool bool | VInt int | VUint int | VFloat "64 word" | VString string
  | VSlice "val list option" | VArray "val list" | VPtr "val option" | VStruct "val list"
  | VFile string

text \<open>\<open>reflect.Zero\<close>: the zero value of a type.\<close>

fun Zero :: "ty \<Rightarrow> val" and ZeroFields :: "StructField list \<Rightarrow> val list" where
  "Zero (Basic k) =
     (if k = KBool then VBool False
      else if k \<in> {KInt, KInt8, KInt16, KInt32, KInt64} then VInt 0
      else if k \<in> {KUint, KUint8, KUint16, KUint32, KUint64} then VUint 0
      else if k \<in> {KFloat32, KFloat64} then VFloat 0
      else if k = KString then VString []
      else VPtr None)"
| "Zero (SliceOf t) = VSlice None"
| "Zero (ArrayOf n t) = VArray (replicate n (Zero t))"
| "Zero (PtrTo t) = VPtr None"
| "Zero (StructOf fs) = VStruct (ZeroFields fs)"
| "Zero FileHeader = VFile []"
| "ZeroFields [] = []"
| "ZeroFields (StructField name pkg t fo bi an # fs) = Zero t # ZeroFields fs"

text \<open>
  Go's \<open>==\<close> on floats: a NaN equals nothing, the two zeros equal each other.
\<close>

definition float_nan :: "64 word \<Rightarrow> bool" where
  "float_nan w \<longleftrightarrow> (w AND 0x7FF0000000000000 = 0x7FF0000000000000) \<and> (w AND 0x000FFFFFFFFFFFFF \<noteq> 0)"

definition float_eq :: "64 word \<Rightarrow> 64 word \<Rightarrow> bool" where
  "float_eq a b \<longleftrightarrow> \<not> float_nan a \<and> \<not> float_nan b \<and>
     (a = b \<or> (a AND 0x7FFFFFFFFFFFFFFF = 0 \<and> b AND 0x7FFFFFFFFFFFFFFF = 0))"

text \<open>
  \<open>reflect.DeepEqual\<close> on two values of one type: slices are equal when both are nil
  or both are not and their elements are deeply equal, pointers when both are nil or
  their pointees are deeply equal, structs and arrays field by field, the rest by \<open>==\<close>.
\<close>

fun DeepEqual :: "val \<Rightarrow> val \<Rightarrow> bool" where
  "DeepEqual (VFloat a) y = (case y of VFloat b \<Rightarrow> float_eq a b | _ \<Rightarrow> False)"
| "DeepEqual (VSlice xo) y =
     (case xo of
        None \<Rightarrow> (case y of VSlice None \<Rightarrow> True | _ \<Rightarrow> False)
      | Some xs \<Rightarrow> (case y of VSlice (Some ys) \<Rightarrow> list_all2 DeepEqual xs ys | _ \<Rightarrow> False))"
| "DeepEqual (VArray xs) y = (case y of VArray ys \<Rightarrow> list_all2 DeepEqual xs ys | _ \<Rightarrow> False)"
| "DeepEqual (VPtr xo) y =
     (case xo of
        None \<Rightarrow> (case y of VPtr None \<Rightarrow> True | _ \<Rightarrow> False)
      | Some x \<Rightarrow> (case y of VPtr (Some y') \<Rightarrow> DeepEqual x y' | _ \<Rightarrow> False))"
| "DeepEqual (VStruct xs) y = (case y of VStruct ys \<Rightarrow> list_all2 DeepEqual xs ys | _ \<Rightarrow> False)"
| "DeepEqual (VBool a) y = (case y of VBool b \<Rightarrow> a = b | _ \<Rightarrow> False)"
| "DeepEqual (VInt a) y = (case y of VInt b \<Rightarrow> a = b | _ \<Rightarrow> False)"
| "DeepEqual (VUint a) y = (case y of VUint b \<Rightarrow> a = b | _ \<Rightarrow> False)"
| "DeepEqual (VString a) y = (case y of VString b \<Rightarrow> a = b | _ \<Rightarrow> False)"
| "DeepEqual (VFile a) y = (case y of VFile b \<Rightarrow> a = b | _ \<Rightarrow> False)"

section \<open>The error list\<close>

text \<open>
  Modelled from the spec: the classification constants and the types \<open>Error\<close> and
  \<open>Errors\<close>, whose declarations are in a file of the package that is missing.  What the
  code at hand shows of them: \<open>Errors\<close> is a slice of \<open>Error\<close> (it is built by \<open>append\<close>,
  measured by \<open>len\<close> and written as a composite literal of \<open>Error\<close> values), and an
  \<open>Error\<close> has the fields \<open>FieldNames\<close>, \<open>Classification\<close> and \<open>Message\<close>.  A
  classification is named here by its Go constant; \<open>Custom\<close> is any other tag.
\<close>

datatype classification = DeserializationError | ContentTypeError | RequiredError
  | IntegerTypeError | BooleanTypeError | FloatTypeError
  | AlphaDashError | AlphaDashDotError | MinSizeError | MaxSizeError | EmailError | UrlError
  | Custom string

record Error =
  FieldNames :: "string list"
  Classification :: classification
  Message :: string

type_synonym Errors = "Error list"

text \<open>
  Modelled from the spec: the method \<open>Add\<close> of \<open>Errors\<close>, which is missing.  It appends
  one error with the given field path, classification and message to the list it is
  called on.
\<close>

definition Add :: "Errors \<Rightarrow> string list \<Rightarrow> classification \<Rightarrow> string \<Rightarrow> Errors" where
  "Add errors fieldNames cls msg =
     errors @ [\<lparr>FieldNames = fieldNames, Classification = cls, Message = msg\<rparr>]"

section \<open>The standard library the package calls\<close>

subsection \<open>strconv\<close>

datatype NumError = ErrSyntax | ErrRange

definition digit_of :: "char \<Rightarrow> int option" where
  "digit_of c = (let n = (of_char c :: nat) in if 48 \<le> n \<and> n \<le> 57 then Some (int n - 48) else None)"

definition maxUint64 :: int where
  "maxUint64 = 2 ^ 64 - 1"

text \<open>
  The digit loop of \<open>strconv.ParseUint(s, 10, 64)\<close>: it stops at the first byte that is
  not a decimal digit (syntax error, value 0) or at the first overflow (range error,
  value \<open>maxUint64\<close>), whichever comes first.
\<close>

fun ParseUint_digits :: "string \<Rightarrow> int \<Rightarrow> int \<times> NumError option" where
  "ParseUint_digits [] n = (n, None)"
| "ParseUint_digits (c # cs) n =
     (case digit_of c of
        None \<Rightarrow> (0, Some ErrSyntax)
      | Some d \<Rightarrow>
          if n \<ge> maxUint64 div 10 + 1 then (maxUint64, Some ErrRange)
          else if n * 10 + d > maxUint64 then (maxUint64, Some ErrRange)
          else ParseUint_digits cs (n * 10 + d))"

definition ParseUint :: "string \<Rightarrow> int \<times> NumError option" where
  "ParseUint s = (if s = [] then (0, Some ErrSyntax) else ParseUint_digits s 0)"

text \<open>\<open>strconv.ParseInt(s, 10, 64)\<close>: an optional sign, then \<open>ParseUint\<close>, then the range.\<close>

definition ParseInt :: "string \<Rightarrow> int \<times> NumError option" where
  "ParseInt s =
     (if s = [] then (0, Some ErrSyntax)
      else
        let neg = (hd s = CHR ''-'');
            s' = (if hd s = CHR ''+'' \<or> hd s = CHR ''-'' then tl s else s);
            (un, err) = ParseUint s'
        in if err = Some ErrSyntax then (0, err)
           else if \<not> neg \<and> un \<ge> 2 ^ 63 then (2 ^ 63 - 1, Some ErrRange)
           else if neg \<and> un > 2 ^ 63 then (- (2 ^ 63), Some ErrRange)
           else ((if neg then - un else un), None))"

text \<open>
  \<open>strconv.Atoi\<close> is \<open>ParseInt(s, 10, 0)\<close> converted to \<open>int\<close>; \<open>int\<close> has 64 bits here.
\<close>

definition Atoi :: "string \<Rightarrow> int \<times> NumError option" where
  "Atoi s = ParseInt s"

definition ParseBool :: "string \<Rightarrow> bool option" where
  "ParseBool s =
     (if s \<in> {''1'', ''t'', ''T'', ''TRUE'', ''true'', ''True''} then Some True
      else if s \<in> {''0'', ''f'', ''F'', ''FALSE'', ''false'', ''False''} then Some False
      else None)"

text \<open>
  Two library functions stay parameters: \<open>strconv.ParseFloat\<close> (the string, the bit
  size; \<open>None\<close> on error) and \<open>fmt.Sprintf("%v", _)\<close> on values that are not strings.
\<close>

record stdlib =
  ParseFloat :: "string \<Rightarrow> nat \<Rightarrow> 64 word option"
  Sprint :: "val \<Rightarrow> string"

definition Sprintf_v :: "stdlib \<Rightarrow> val \<Rightarrow> string" where
  "Sprintf_v lib v = (case v of VString s \<Rightarrow> s | _ \<Rightarrow> Sprint lib v)"

section \<open>Coercion of one raw string: setWithProperType\<close>

text \<open>
  \<open>reflect.Value.SetInt\<close> and \<open>SetUint\<close> store the 64-bit argument converted to the
  field's own integer type, which keeps the low bits.
\<close>

definition SetInt :: "Kind \<Rightarrow> int \<Rightarrow> val" where
  "SetInt k x =
     (if k = KInt8 then VInt (sint (word_of_int x :: 8 word))
      else if k = KInt16 then VInt (sint (word_of_int x :: 16 word))
      else if k = KInt32 then VInt (sint (word_of_int x :: 32 word))
      else VInt (sint (word_of_int x :: 64 word)))"

definition SetUint :: "Kind \<Rightarrow> int \<Rightarrow> val" where
  "SetUint k x =
     (if k = KUint8 then VUint (uint (word_of_int x :: 8 word))
      else if k = KUint16 then VUint (uint (word_of_int x :: 16 word))
      else if k = KUint32 then VUint (uint (word_of_int x :: 32 word))
      else VUint (uint (word_of_int x :: 64 word)))"

text \<open>
  \<open>setWithProperType\<close> writes through \<open>structField\<close> and calls \<open>errors.Add\<close> on its own
  parameter \<open>errors\<close>.  That parameter is a slice passed by value and the function
  returns nothing; the model returns the field as the call leaves it, and the
  function's own \<open>errors\<close> variable as it stands at the return, so that both can be
  observed.
\<close>

definition setWithProperType ::
  "stdlib \<Rightarrow> Kind \<Rightarrow> string \<Rightarrow> val \<Rightarrow> string \<Rightarrow> Errors \<Rightarrow> val \<times> Errors" where
  "setWithProperType lib valueKind val structField nameInTag errors =
     (if valueKind \<in> {KInt, KInt8, KInt16, KInt32, KInt64} then
        (let val = (if val = [] then ''0'' else val);
             (intVal, err) = ParseInt val
         in if err \<noteq> None
            then (structField,
                  Add errors [nameInTag] IntegerTypeError ''Value could not be parsed as integer'')
            else (SetInt valueKind intVal, errors))
      else if valueKind \<in> {KUint, KUint8, KUint16, KUint32, KUint64} then
        (let val = (if val = [] then ''0'' else val);
             (uintVal, err) = ParseUint val
         in if err \<noteq> None
            then (structField,
                  Add errors [nameInTag] IntegerTypeError
                    ''Value could not be parsed as unsigned integer'')
            else (SetUint valueKind uintVal, errors))
      else if valueKind = KBool then
        (if val = ''on'' then (VBool True, errors)
         else
           let val = (if val = [] then ''false'' else val)
           in case ParseBool val of
                None \<Rightarrow> (structField,
                  Add errors [nameInTag] BooleanTypeError ''Value could not be parsed as boolean'')
              | Some boolVal \<Rightarrow> if boolVal then (VBool True, errors) else (structField, errors))
      else if valueKind = KFloat32 then
        (let val = (if val = [] then ''0.0'' else val)
         in case ParseFloat lib val 32 of
              None \<Rightarrow> (structField,
                Add errors [nameInTag] FloatTypeError ''Value could not be parsed as 32-bit float'')
            | Some floatVal \<Rightarrow> (VFloat floatVal, errors))
      else if valueKind = KFloat64 then
        (let val = (if val = [] then ''0.0'' else val)
         in case ParseFloat lib val 64 of
              None \<Rightarrow> (structField,
                Add errors [nameInTag] FloatTypeError ''Value could not be parsed as 64-bit float'')
            | Some floatVal \<Rightarrow> (VFloat floatVal, errors))
      else if valueKind = KString then (VString val, errors)
      else (structField, errors))"

section \<open>Binding form data: mapForm\<close>

text \<open>
  What a run-time panic of the Go program is called here.
\<close>

datatype panic =
    PointerModel \<comment> \<open>\<open>ensureNotPointer\<close>: pointers are not accepted as binding models\<close>
  | NilDereference \<comment> \<open>a field of a nil pointer is read\<close>
  | IndexOutOfRange \<comment> \<open>\<open>xs[0]\<close> on an empty slice\<close>
  | SliceBounds \<comment> \<open>\<open>s[i:j]\<close> with \<open>j < i\<close>\<close>
  | NumFieldOfNonStruct \<comment> \<open>\<open>reflect.Type.NumField\<close> of a type that is no struct\<close>
  | FieldOfInvalidValue \<comment> \<open>\<open>reflect.Value.Field\<close> of the zero Value, or past the last field\<close>
  | SetUnsettable \<comment> \<open>\<open>reflect.Value.Set\<close> on a value that cannot be set\<close>

text \<open>
  The two raw inputs: \<open>map[string][]string\<close> and \<open>map[string][]*multipart.FileHeader\<close>
  (a file header is known by its file name).  A nil map is the empty map.
\<close>

type_synonym Values = "string \<rightharpoonup> string list"
type_synonym Files = "string \<rightharpoonup> string list"

text \<open>
  The last branch of the loop body of \<open>mapForm\<close>, for a field that is neither an embedded
  pointer nor of struct kind and whose \<open>form\<close> tag is not empty.  \<open>canSet\<close> is
  \<open>structField.CanSet()\<close>.  The result is the field after the iteration.  Each call of
  \<open>setWithProperType\<close> gets a copy of the slice header \<open>errors\<close>; what it appends to its
  copy is not seen here, so only the field it returns is kept.
\<close>

definition mapForm_leaf ::
  "stdlib \<Rightarrow> bool \<Rightarrow> ty \<Rightarrow> val \<Rightarrow> string \<Rightarrow> Values \<Rightarrow> Files \<Rightarrow> Errors \<Rightarrow> panic + val" where
  "mapForm_leaf lib canSet t structField inputFieldName form formfile errors =
     (if \<not> canSet then Inr structField
      else case form inputFieldName of
        Some inputValue \<Rightarrow>
          (let numElems = length inputValue in
           if KindOf t = KSlice \<and> numElems > 0 then
             (case t of
                SliceOf et \<Rightarrow>
                  Inr (VSlice (Some (map (\<lambda>s. fst (setWithProperType lib (KindOf et) s (Zero et)
                                                  inputFieldName errors)) inputValue)))
              | _ \<Rightarrow> Inr structField)
           else
             (case inputValue of
                [] \<Rightarrow> Inl IndexOutOfRange
              | s # _ \<Rightarrow>
                  Inr (fst (setWithProperType lib (KindOf t) s structField inputFieldName errors))))
      | None \<Rightarrow>
          (case formfile inputFieldName of
             None \<Rightarrow> Inr structField
           | Some inputFile \<Rightarrow>
               (let numElems = length inputFile in
                if KindOf t = KSlice \<and> numElems > 0 \<and> t = SliceOf (PtrTo FileHeader) then
                  Inr (VSlice (Some (map (\<lambda>h. VPtr (Some (VFile h))) inputFile)))
                else if t = PtrTo FileHeader then
                  (case inputFile of
                     [] \<Rightarrow> Inl IndexOutOfRange
                   | h # _ \<Rightarrow> Inr (VPtr (Some (VFile h))))
                else Inr structField)))"

text \<open>
  The loop of \<open>mapForm\<close> over the fields of a struct, in declaration order, with the values
  the fields hold (\<open>mapForm_fields\<close>), and its body for one field (\<open>mapForm_field\<close>); \<open>ro\<close>
  says that the struct was reached through an unexported field, whose fields reflection
  does not let one set.  The result is the field, or the fields, after the walk, or the
  first panic.  A recursive call of \<open>mapForm\<close> on a struct is this loop on its fields.
  \<open>mapForm\<close> never calls \<open>errors.Add\<close> itself and hands \<open>errors\<close> on by value, so its
  caller's list is what it was.
\<close>

fun mapForm_field ::
  "stdlib \<Rightarrow> bool \<Rightarrow> StructField \<Rightarrow> val \<Rightarrow> Values \<Rightarrow> Files \<Rightarrow> Errors \<Rightarrow> panic + val"
  and mapForm_fields ::
  "stdlib \<Rightarrow> bool \<Rightarrow> StructField list \<Rightarrow> val list \<Rightarrow> Values \<Rightarrow> Files \<Rightarrow> Errors
     \<Rightarrow> panic + val list" where
  "mapForm_field lib ro (StructField name pkg t inputFieldName bi anon) structField
       form formfile errors =
     (if KindOf t = KPtr \<and> anon then
        (if ro \<or> pkg \<noteq> [] then Inl SetUnsettable
         else case t of
           PtrTo (StructOf ifs) \<Rightarrow>
             (case mapForm_fields lib False ifs (ZeroFields ifs) form formfile errors of
                Inl p \<Rightarrow> Inl p
              | Inr ivs \<Rightarrow>
                  if DeepEqual (VStruct ivs) (Zero (StructOf ifs)) then Inr (VPtr None)
                  else Inr (VPtr (Some (VStruct ivs))))
         | PtrTo FileHeader \<Rightarrow> Inr (VPtr None)
         | _ \<Rightarrow> Inl NumFieldOfNonStruct)
      else if KindOf t = KStruct then
        (case t of
           StructOf ifs \<Rightarrow>
             (case structField of
                VStruct ivs \<Rightarrow>
                  (case mapForm_fields lib (ro \<or> pkg \<noteq> []) ifs ivs form formfile errors of
                     Inl p \<Rightarrow> Inl p
                   | Inr ivs' \<Rightarrow> Inr (VStruct ivs'))
              | _ \<Rightarrow> Inl FieldOfInvalidValue)
         | _ \<Rightarrow> Inr structField)
      else if inputFieldName \<noteq> [] then
        mapForm_leaf lib (\<not> (ro \<or> pkg \<noteq> [])) t structField inputFieldName
          form formfile errors
      else Inr structField)"
| "mapForm_fields lib ro [] vs form formfile errors = Inr []"
| "mapForm_fields lib ro (f # fs) vs form formfile errors =
     (case vs of
        [] \<Rightarrow> Inl FieldOfInvalidValue
      | structField # vs' \<Rightarrow>
          (case mapForm_field lib ro f structField form formfile errors of
             Inl p \<Rightarrow> Inl p
           | Inr v \<Rightarrow>
               (case mapForm_fields lib ro fs vs' form formfile errors of
                  Inl p \<Rightarrow> Inl p
                | Inr rest \<Rightarrow> Inr (v # rest))))"

text \<open>
  \<open>mapForm\<close> as it is entered from outside, on a pointer to the value to fill:
  \<open>typ.NumField()\<close> panics when the pointee is no struct.
\<close>

definition mapForm ::
  "stdlib \<Rightarrow> ty \<Rightarrow> val \<Rightarrow> Values \<Rightarrow> Files \<Rightarrow> Errors \<Rightarrow> panic + val" where
  "mapForm lib t formStruct form formfile errors =
     (case t of
        StructOf fs \<Rightarrow>
          (case formStruct of
             VStruct vs \<Rightarrow>
               (case mapForm_fields lib False fs vs form formfile errors of
                  Inl p \<Rightarrow> Inl p
                | Inr vs' \<Rightarrow> Inr (VStruct vs'))
           | _ \<Rightarrow> Inl FieldOfInvalidValue)
      | FileHeader \<Rightarrow> Inr formStruct
      | _ \<Rightarrow> Inl NumFieldOfNonStruct)"

section \<open>The standard library the validator calls\<close>

subsection \<open>strings and unicode/utf8\<close>

text \<open>\<open>strings.Split(s, sep)\<close> for a separator of one byte, \<open>strings.HasPrefix\<close>.\<close>

fun Split :: "string \<Rightarrow> char \<Rightarrow> string list" where
  "Split [] sep = [[]]"
| "Split (c # cs) sep =
     (if c = sep then [] # Split cs sep
      else case Split cs sep of [] \<Rightarrow> [[c]] | r # rs \<Rightarrow> (c # r) # rs)"

definition HasPrefix :: "string \<Rightarrow> string \<Rightarrow> bool" where
  "HasPrefix s prefix = (take (length prefix) s = prefix)"

text \<open>
  A Go string is a sequence of bytes.  \<open>utf8.RuneCountInString\<close> counts the code points of
  its UTF-8 reading, and every byte that starts no well-formed encoding as one more.
  \<open>rune_width c cs\<close> is the number of bytes of the rune that starts with \<open>c\<close>, followed
  by \<open>cs\<close>.
\<close>

definition byte_in :: "nat \<Rightarrow> nat \<Rightarrow> char \<Rightarrow> bool" where
  "byte_in lo hi c \<longleftrightarrow> lo \<le> (of_char c :: nat) \<and> (of_char c :: nat) \<le> hi"

definition rune_width :: "char \<Rightarrow> string \<Rightarrow> nat" where
  "rune_width c cs =
     (let b = (of_char c :: nat) in
      if b < 0x80 then 1
      else if b < 0xC2 \<or> 0xF4 < b then 1
      else
        let size = (if b < 0xE0 then 2 else if b < 0xF0 then 3 else (4::nat));
            lo = (if b = 0xE0 then 0xA0 else if b = 0xF0 then 0x90 else 0x80);
            hi = (if b = 0xED then 0x9F else if b = 0xF4 then 0x8F else 0xBF)
        in if Suc (length cs) < size then 1
           else if \<not> byte_in lo hi (cs ! 0) then 1
           else if size = 2 then 2
           else if \<not> byte_in 0x80 0xBF (cs ! 1) then 1
           else if size = 3 then 3
           else if \<not> byte_in 0x80 0xBF (cs ! 2) then 1
           else 4)"

function RuneCountInString :: "string \<Rightarrow> nat" where
  "RuneCountInString [] = 0"
| "RuneCountInString (c # cs) = Suc (RuneCountInString (drop (rune_width c cs - 1) cs))"
  by pat_completeness auto
termination
  by (relation "measure length") auto

subsection \<open>regexp\<close>

text \<open>
  Regular expressions over bytes, matched by derivatives.  \<open>MatchString\<close> asks, as
  \<open>regexp.Regexp.MatchString\<close> does, whether some substring matches.  The patterns of the
  package use ASCII classes only; a negated class is met by every byte of a rune that
  is not ASCII, so reading bytes for runes does not change whether a match exists.
\<close>

datatype rexp = Nothing | Eps | Cls "char \<Rightarrow> bool" | Seq rexp rexp | Alt rexp rexp | Star rexp

fun nullable :: "rexp \<Rightarrow> bool" where
  "nullable Nothing = False"
| "nullable Eps = True"
| "nullable (Cls p) = False"
| "nullable (Seq r s) = (nullable r \<and> nullable s)"
| "nullable (Alt r s) = (nullable r \<or> nullable s)"
| "nullable (Star r) = True"

fun deriv :: "char \<Rightarrow> rexp \<Rightarrow> rexp" where
  "deriv c Nothing = Nothing"
| "deriv c Eps = Nothing"
| "deriv c (Cls p) = (if p c then Eps else Nothing)"
| "deriv c (Seq r s) =
     (if nullable r then Alt (Seq (deriv c r) s) (deriv c s) else Seq (deriv c r) s)"
| "deriv c (Alt r s) = Alt (deriv c r) (deriv c s)"
| "deriv c (Star r) = Seq (deriv c r) (Star r)"

fun matches :: "rexp \<Rightarrow> string \<Rightarrow> bool" where
  "matches r [] = nullable r"
| "matches r (c # cs) = matches (deriv c r) cs"

definition MatchString :: "rexp \<Rightarrow> string \<Rightarrow> bool" where
  "MatchString r s =
     matches (Seq (Star (Cls (\<lambda>c. True))) (Seq r (Star (Cls (\<lambda>c. True))))) s"

definition Plus :: "rexp \<Rightarrow> rexp" where
  "Plus r = Seq r (Star r)"

definition Opt :: "rexp \<Rightarrow> rexp" where
  "Opt r = Alt r Eps"

fun Lit :: "string \<Rightarrow> rexp" where
  "Lit [] = Eps"
| "Lit (c # cs) = Seq (Cls (\<lambda>x. x = c)) (Lit cs)"

text \<open>The Perl classes \<open>\d\<close> and \<open>\w\<close>, ASCII only in Go.\<close>

definition perl_d :: "char \<Rightarrow> bool" where
  "perl_d c \<longleftrightarrow> byte_in 48 57 c"

definition perl_w :: "char \<Rightarrow> bool" where
  "perl_w c \<longleftrightarrow> byte_in 48 57 c \<or> byte_in 65 90 c \<or> byte_in 97 122 c \<or> c = CHR ''_''"

text \<open>
  The four patterns of the package:
  \<^verbatim>\<open>[^\d\w-_]\<close>, \<^verbatim>\<open>[^\d\w-_\.]\<close>,
  the e-mail pattern
  \<^verbatim>\<open>A+(?:\.A+)*@(?:[\w](?:[\w-]*[\w])?\.)+[a-zA-Z0-9](?:[\w-]*[\w])?\<close>
  with \<open>A\<close> the class of \<open>\w\<close> and the bytes \<^verbatim>\<open>!#$%&'*+/=?^_`{|}~-\<close>, and the URL pattern
  \<^verbatim>\<open>(http|https):\/\/[\w\-_]+(\.[\w\-_]+)+([\w\-\.,@?^=%&amp;:/~\+#]*[\w\-\@?^=%&amp;/~\+#])?\<close>.
\<close>

definition alphaDashPattern :: rexp where
  "alphaDashPattern = Cls (\<lambda>c. \<not> (perl_d c \<or> perl_w c \<or> c = CHR ''-'' \<or> c = CHR ''_''))"

definition alphaDashDotPattern :: rexp where
  "alphaDashDotPattern =
     Cls (\<lambda>c. \<not> (perl_d c \<or> perl_w c \<or> c = CHR ''-'' \<or> c = CHR ''_'' \<or> c = CHR ''.''))"

definition email_atom :: "char \<Rightarrow> bool" where
  "email_atom c \<longleftrightarrow> perl_w c \<or> c \<in> set ''!#$%&*+/=?^_`{|}~-'' \<or> c = CHR 0x27"

definition host_label :: rexp where
  "host_label = Opt (Seq (Star (Cls (\<lambda>c. perl_w c \<or> c = CHR ''-''))) (Cls perl_w))"

definition emailPattern :: rexp where
  "emailPattern =
     Seq (Plus (Cls email_atom))
    (Seq (Star (Seq (Lit ''.'') (Plus (Cls email_atom))))
    (Seq (Lit ''@'')
    (Seq (Plus (Seq (Cls perl_w) (Seq host_label (Lit ''.''))))
    (Seq (Cls (\<lambda>c. byte_in 97 122 c \<or> byte_in 65 90 c \<or> byte_in 48 57 c))
         host_label))))"

definition url_host :: "char \<Rightarrow> bool" where
  "url_host c \<longleftrightarrow> perl_w c \<or> c = CHR ''-'' \<or> c = CHR ''_''"

definition urlPattern :: rexp where
  "urlPattern =
     Seq (Alt (Lit ''http'') (Lit ''https''))
    (Seq (Lit ''://'')
    (Seq (Plus (Cls url_host))
    (Seq (Plus (Seq (Lit ''.'') (Plus (Cls url_host))))
         (Opt (Seq (Star (Cls (\<lambda>c. perl_w c \<or> c \<in> set ''-.,@?^=%&amp;:/~+#'')))
                   (Cls (\<lambda>c. perl_w c \<or> c \<in> set ''-@?^=%&amp;/~+#'')))))))"

section \<open>Validation: validateStruct and Validate\<close>

text \<open>
  One turn of the loop over the rules of a field: the \<open>switch\<close> on \<open>rule\<close>.  A
  \<open>break\<close> in the switch leaves the switch and a \<open>continue\<close> starts the next turn of the
  rule loop; the switch is the last statement of the loop body, so after either the
  loop goes on with the next rule.  \<open>rule[8 : len(rule)-1]\<close> panics when the rule is just
  the prefix.  The error of \<open>strconv.Atoi\<close> is dropped and its value kept.
\<close>

definition matchRule :: "stdlib \<Rightarrow> StructField \<Rightarrow> val \<Rightarrow> string \<Rightarrow> Errors \<Rightarrow> panic + Errors" where
  "matchRule lib field fieldValue rule errors =
     (if length rule = 0 then Inr errors
      else if rule = ''Required'' then
        (if DeepEqual (Zero (Type field)) fieldValue
         then Inr (Add errors [Name field] RequiredError ''Required'')
         else Inr errors)
      else if rule = ''AlphaDash'' then
        (if MatchString alphaDashPattern (Sprintf_v lib fieldValue)
         then Inr (Add errors [Name field] AlphaDashError ''AlphaDash'')
         else Inr errors)
      else if rule = ''AlphaDashDot'' then
        (if MatchString alphaDashDotPattern (Sprintf_v lib fieldValue)
         then Inr (Add errors [Name field] AlphaDashDotError ''AlphaDashDot'')
         else Inr errors)
      else if HasPrefix rule ''MinSize('' then
        (if length rule - 1 < 8 then Inl SliceBounds
         else
           let min = fst (Atoi (take (length rule - 1 - 8) (drop 8 rule))) in
           if (case fieldValue of VString str \<Rightarrow> int (RuneCountInString str) < min | _ \<Rightarrow> False)
           then Inr (Add errors [Name field] MinSizeError ''MinSize'')
           else if (case fieldValue of
                      VSlice xs \<Rightarrow> int (length (case xs of None \<Rightarrow> [] | Some l \<Rightarrow> l)) < min
                    | _ \<Rightarrow> False)
           then Inr (Add errors [Name field] MinSizeError ''MinSize'')
           else Inr errors)
      else if HasPrefix rule ''MaxSize('' then
        (if length rule - 1 < 8 then Inl SliceBounds
         else
           let max = fst (Atoi (take (length rule - 1 - 8) (drop 8 rule))) in
           if (case fieldValue of VString str \<Rightarrow> int (RuneCountInString str) > max | _ \<Rightarrow> False)
           then Inr (Add errors [Name field] MaxSizeError ''MaxSize'')
           else if (case fieldValue of
                      VSlice xs \<Rightarrow> int (length (case xs of None \<Rightarrow> [] | Some l \<Rightarrow> l)) > max
                    | _ \<Rightarrow> False)
           then Inr (Add errors [Name field] MaxSizeError ''MaxSize'')
           else Inr errors)
      else if rule = ''Email'' then
        (if \<not> MatchString emailPattern (Sprintf_v lib fieldValue)
         then Inr (Add errors [Name field] EmailError ''Email'')
         else Inr errors)
      else if rule = ''Url'' then
        (let str = Sprintf_v lib fieldValue in
         if length str = 0 then Inr errors
         else if \<not> MatchString urlPattern str
         then Inr (Add errors [Name field] UrlError ''Url'')
         else Inr errors)
      else Inr errors)"

text \<open>The loop over the rules: \<open>strings.Split(field.Tag.Get("binding"), ";")\<close>, in order.\<close>

fun matchRules :: "stdlib \<Rightarrow> StructField \<Rightarrow> val \<Rightarrow> string list \<Rightarrow> Errors \<Rightarrow> panic + Errors" where
  "matchRules lib field fieldValue [] errors = Inr errors"
| "matchRules lib field fieldValue (rule # rules) errors =
     (case matchRule lib field fieldValue rule errors of
        Inl p \<Rightarrow> Inl p
      | Inr errors' \<Rightarrow> matchRules lib field fieldValue rules errors')"

fun Elem :: "ty \<Rightarrow> ty" where
  "Elem (PtrTo t) = t"
| "Elem (SliceOf t) = t"
| "Elem (ArrayOf n t) = t"
| "Elem t = t"

text \<open>
  \<open>validateStruct\<close> on a value of a type, and its loop over the fields.  The loop gets the
  field values of the struct, or \<open>None\<close> when the struct is the pointee of a nil pointer
  (reading a field of it panics).  Unlike \<open>mapForm\<close>, \<open>validateStruct\<close> returns its error
  list, and every caller stores it.
\<close>

fun validateStruct :: "stdlib \<Rightarrow> Errors \<Rightarrow> ty \<Rightarrow> val \<Rightarrow> panic + Errors"
  and validateStruct_fields ::
    "stdlib \<Rightarrow> Errors \<Rightarrow> StructField list \<Rightarrow> val list option \<Rightarrow> panic + Errors" where
  "validateStruct lib errors (PtrTo t) obj =
     (case t of
        StructOf fs \<Rightarrow>
          validateStruct_fields lib errors fs
            (case obj of VPtr (Some (VStruct vs)) \<Rightarrow> Some vs | _ \<Rightarrow> None)
      | FileHeader \<Rightarrow> (case obj of VPtr (Some v) \<Rightarrow> Inr errors | _ \<Rightarrow> Inl FieldOfInvalidValue)
      | _ \<Rightarrow> Inl NumFieldOfNonStruct)"
| "validateStruct lib errors (StructOf fs) obj =
     validateStruct_fields lib errors fs (case obj of VStruct vs \<Rightarrow> Some vs | _ \<Rightarrow> None)"
| "validateStruct lib errors FileHeader obj = Inr errors"
| "validateStruct lib errors (Basic k) obj = Inl NumFieldOfNonStruct"
| "validateStruct lib errors (SliceOf t) obj = Inl NumFieldOfNonStruct"
| "validateStruct lib errors (ArrayOf n t) obj = Inl NumFieldOfNonStruct"
| "validateStruct_fields lib errors [] vals = Inr errors"
| "validateStruct_fields lib errors (StructField name pkg t fo bi an # fs) vals =
     (if fo = ''-'' then validateStruct_fields lib errors fs (map_option tl vals)
      else case vals of
        None \<Rightarrow> Inl FieldOfInvalidValue
      | Some [] \<Rightarrow> Inl FieldOfInvalidValue
      | Some (fieldValue # vs) \<Rightarrow>
          if pkg \<noteq> [] then validateStruct_fields lib errors fs (Some vs)
          else
            (case
               (if KindOf t = KStruct \<or>
                   (KindOf t = KPtr \<and> \<not> DeepEqual (Zero t) fieldValue \<and> KindOf (Elem t) = KStruct)
                then validateStruct lib errors t fieldValue
                else Inr errors)
             of
               Inl p \<Rightarrow> Inl p
             | Inr errors1 \<Rightarrow>
                 (case matchRules lib (StructField name pkg t fo bi an) fieldValue
                         (Split bi CHR '';'') errors1 of
                    Inl p \<Rightarrow> Inl p
                  | Inr errors2 \<Rightarrow> validateStruct_fields lib errors2 fs (Some vs))))"

text \<open>
  The \<open>Validator\<close> interface: \<open>validator t v\<close> is the method \<open>Validate\<close> of the value \<open>v\<close>
  of type \<open>t\<close>, with its receiver and the request context fixed, when the type has one.
  The method gets the error list so far and returns the error list to go on with.
\<close>

type_synonym Validator = "ty \<Rightarrow> val \<Rightarrow> (Errors \<Rightarrow> Errors) option"

text \<open>What \<open>Validate\<close> does with one value: both branches of it run these two steps.\<close>

definition validate_value ::
  "stdlib \<Rightarrow> Validator \<Rightarrow> Errors \<Rightarrow> ty \<Rightarrow> val \<Rightarrow> panic + Errors" where
  "validate_value lib validator errors t e =
     (case validateStruct lib errors t e of
        Inl p \<Rightarrow> Inl p
      | Inr errors' \<Rightarrow>
          (case validator t e of
             Some validate \<Rightarrow> Inr (validate errors')
           | None \<Rightarrow> Inr errors'))"

fun validate_elements ::
  "stdlib \<Rightarrow> Validator \<Rightarrow> Errors \<Rightarrow> ty \<Rightarrow> val list \<Rightarrow> panic + Errors" where
  "validate_elements lib validator errors et [] = Inr errors"
| "validate_elements lib validator errors et (e # es) =
     (case validate_value lib validator errors et e of
        Inl p \<Rightarrow> Inl p
      | Inr errors' \<Rightarrow> validate_elements lib validator errors' et es)"

text \<open>
  The handler \<open>Validate(obj)\<close>: the error list it maps to the context.  \<open>deref\<close> is the
  step \<open>v = v.Elem(); k = v.Kind()\<close>, giving kind \<open>Invalid\<close> on a nil pointer.
\<close>

definition deref :: "ty \<Rightarrow> val \<Rightarrow> Kind \<times> ty \<times> val" where
  "deref t v =
     (case t of
        PtrTo t' \<Rightarrow> (case v of VPtr (Some v') \<Rightarrow> (KindOf t', t', v') | _ \<Rightarrow> (KInvalid, t, v))
      | _ \<Rightarrow> (KInvalid, t, v))"

definition Validate :: "stdlib \<Rightarrow> Validator \<Rightarrow> ty \<Rightarrow> val \<Rightarrow> panic + Errors" where
  "Validate lib validator t obj =
     (let (k, t', v) =
            (if KindOf t = KInterface \<or> KindOf t = KPtr then deref t obj else (KindOf t, t, obj))
      in if k = KSlice \<or> k = KArray then
           (case v of
              VSlice xs \<Rightarrow>
                validate_elements lib validator [] (Elem t') (case xs of None \<Rightarrow> [] | Some l \<Rightarrow> l)
            | VArray l \<Rightarrow> validate_elements lib validator [] (Elem t') l
            | _ \<Rightarrow> Inr [])
         else validate_value lib validator [] t obj)"

section \<open>The handlers Form, MultipartForm and Json\<close>

text \<open>
  What a handler reads from the request: the error of \<open>Req.ParseForm()\<close> and the map
  \<open>Req.Form\<close> it leaves; \<open>Req.MultipartForm\<close> as it stands (\<open>None\<close> is nil), with its
  maps \<open>Value\<close> and \<open>File\<close>; the result of \<open>Req.MultipartReader()\<close>, an error or a reader
  whose \<open>ReadForm(MaxMemory)\<close> gives an error and no form, or a form; and the body: \<open>None\<close>
  when it is nil, else what \<open>json.NewDecoder(body).Decode\<close> makes of the zero value it is
  given, and its error.
\<close>

datatype decode_error = EOF | DecodeError string

record Request =
  ParseForm_error :: "string option"
  Req_Form :: Values
  Req_MultipartForm :: "(Values \<times> Files) option"
  MultipartReader :: "string + (string + Values \<times> Files)"
  Body :: "(ty \<Rightarrow> val \<Rightarrow> val \<times> decode_error option) option"

definition ensureNotPointer :: "ty \<Rightarrow> panic + unit" where
  "ensureNotPointer t = (if KindOf t = KPtr then Inl PointerModel else Inr ())"

text \<open>
  \<open>validateAndMap\<close>: \<open>obj\<close> is the pointer to the bound value; the errors of \<open>Validate\<close>
  are appended to the handler's list, and the list and the value are mapped to the
  context.
\<close>

definition validateAndMap ::
  "stdlib \<Rightarrow> Validator \<Rightarrow> ty \<Rightarrow> val \<Rightarrow> Errors \<Rightarrow> panic + Errors \<times> val" where
  "validateAndMap lib validator t v errors =
     (case Validate lib validator (PtrTo t) (VPtr (Some v)) of
        Inl p \<Rightarrow> Inl p
      | Inr verrs \<Rightarrow> Inr (errors @ verrs, v))"

text \<open>
  \<open>Form(formStruct)\<close> on a request: only the type of \<open>formStruct\<close> is used
  (\<open>reflect.New(reflect.TypeOf(formStruct))\<close> is a fresh zero value).  \<open>mapForm\<close> is given
  the handler's \<open>errors\<close> by value and returns nothing, so the list passed on to
  \<open>validateAndMap\<close> is the one from before the call.
\<close>

definition Form :: "stdlib \<Rightarrow> Validator \<Rightarrow> ty \<Rightarrow> Request \<Rightarrow> panic + Errors \<times> val" where
  "Form lib validator t req =
     (case ensureNotPointer t of
        Inl p \<Rightarrow> Inl p
      | Inr _ \<Rightarrow>
          (let errors = (case ParseForm_error req of
                           Some parseErr \<Rightarrow> Add [] [] DeserializationError parseErr
                         | None \<Rightarrow> [])
           in case mapForm lib t (Zero t) (Req_Form req) Map.empty errors of
                Inl p \<Rightarrow> Inl p
              | Inr formStruct \<Rightarrow> validateAndMap lib validator t formStruct errors))"

definition MultipartForm ::
  "stdlib \<Rightarrow> Validator \<Rightarrow> ty \<Rightarrow> Request \<Rightarrow> panic + Errors \<times> val" where
  "MultipartForm lib validator t req =
     (case ensureNotPointer t of
        Inl p \<Rightarrow> Inl p
      | Inr _ \<Rightarrow>
          (let (errors, multipartForm) =
                 (case Req_MultipartForm req of
                    Some f \<Rightarrow> ([], Some f)
                  | None \<Rightarrow>
                      (case MultipartReader req of
                         Inl err \<Rightarrow> (Add [] [] DeserializationError err, None)
                       | Inr multipartReader \<Rightarrow>
                           (case multipartReader of
                              Inl parseErr \<Rightarrow> (Add [] [] DeserializationError parseErr, None)
                            | Inr form \<Rightarrow> ([], Some form))))
           in case multipartForm of
                None \<Rightarrow> Inl NilDereference
              | Some (value, file) \<Rightarrow>
                  (case mapForm lib t (Zero t) value file errors of
                     Inl p \<Rightarrow> Inl p
                   | Inr formStruct \<Rightarrow> validateAndMap lib validator t formStruct errors)))"

definition Json :: "stdlib \<Rightarrow> Validator \<Rightarrow> ty \<Rightarrow> Request \<Rightarrow> panic + Errors \<times> val" where
  "Json lib validator t req =
     (case ensureNotPointer t of
        Inl p \<Rightarrow> Inl p
      | Inr _ \<Rightarrow>
          (let (jsonStruct, errors) =
                 (case Body req of
                    None \<Rightarrow> (Zero t, [])
                  | Some decode \<Rightarrow>
                      (case decode t (Zero t) of
                         (v, Some (DecodeError err)) \<Rightarrow> (v, Add [] [] DeserializationError err)
                       | (v, _) \<Rightarrow> (v, [])))
           in validateAndMap lib validator t jsonStruct errors))"

section \<open>The types of the test fixtures\<close>

text \<open>
  The struct types the package's tests bind and validate, and the \<open>Validate\<close> method of
  \<open>Post\<close>, which \<open>BlogPost\<close> gets by embedding \<open>Post\<close> and the pointer types get from
  their base types.
\<close>

definition Post :: ty where
  "Post = StructOf
     [StructField ''Title'' [] (Basic KString) ''title'' ''Required'' False,
      StructField ''Content'' [] (Basic KString) ''content'' [] False]"

definition Person :: ty where
  "Person = StructOf
     [StructField ''Name'' [] (Basic KString) ''name'' ''Required'' False,
      StructField ''Email'' [] (Basic KString) ''email'' [] False]"

definition BlogPost :: ty where
  "BlogPost = StructOf
     [StructField ''Post'' [] Post [] [] True,
      StructField ''Id'' [] (Basic KInt) ''id'' ''Required'' False,
      StructField ''Ignored'' [] (Basic KString) ''-'' [] False,
      StructField ''Ratings'' [] (SliceOf (Basic KInt)) ''rating'' [] False,
      StructField ''Author'' [] Person [] [] False,
      StructField ''Coauthor'' [] (PtrTo Person) [] [] False,
      StructField ''HeaderImage'' [] (PtrTo FileHeader) ''headerImage'' [] False,
      StructField ''Pictures'' [] (SliceOf (PtrTo FileHeader)) ''picture'' [] False,
      StructField ''unexported'' ''binding'' (Basic KString) ''unexported'' [] False]"


definition SadForm :: ty where
  "SadForm = StructOf
     [StructField ''AlphaDash'' [] (Basic KString) ''AlphaDash'' ''AlphaDash'' False,
      StructField ''AlphaDashDot'' [] (Basic KString) ''AlphaDashDot'' ''AlphaDashDot'' False,
      StructField ''MinSize'' [] (Basic KString) ''MinSize'' ''MinSize(5)'' False,
      StructField ''MinSizeSlice'' [] (SliceOf (Basic KString)) ''MinSizeSlice'' ''MinSize(5)'' False,
      StructField ''MaxSize'' [] (Basic KString) ''MaxSize'' ''MaxSize(1)'' False,
      StructField ''MaxSizeSlice'' [] (SliceOf (Basic KString)) ''MaxSizeSlice'' ''MaxSize(1)'' False,
      StructField ''Email'' [] (Basic KString) ''Email'' ''Email'' False,
      StructField ''Url'' [] (Basic KString) ''Url'' ''Url'' False,
      StructField ''UrlEmpty'' [] (Basic KString) ''UrlEmpty'' ''Url'' False]"

fun Post_Title :: "val \<Rightarrow> string" where
  "Post_Title (VPtr (Some v)) = Post_Title v"
| "Post_Title (VStruct (VString title # vs)) = title"
| "Post_Title (VStruct (VStruct (VString title # ws) # vs)) = title"
| "Post_Title v = []"

definition Post_Validate :: "val \<Rightarrow> Errors \<Rightarrow> Errors" where
  "Post_Validate p errs =
     (if length (Post_Title p) < 10
      then errs @ [\<lparr>FieldNames = [''title''], Classification = Custom ''LengthError'',
                    Message = ''Life is too short''\<rparr>]
      else errs)"

definition fixture_validator :: Validator where
  "fixture_validator t v =
     (if t \<in> {Post, PtrTo Post, BlogPost, PtrTo BlogPost} then Some (Post_Validate v) else None)"

text \<open>
  No test of the package binds a float; where a concrete library is needed, this one
  has a \<open>ParseFloat\<close> that fails and prints other values as the empty string.
\<close>

definition lib0 :: stdlib where
  "lib0 = \<lparr>ParseFloat = (\<lambda>s n. None), Sprint = (\<lambda>v. [])\<rparr>"

definition request :: "(string \<times> string list) list \<Rightarrow> Request" where
  "request kvs = \<lparr>ParseForm_error = None, Req_Form = map_of kvs, Req_MultipartForm = None,
     MultipartReader = Inl ''request Content-Type isn't multipart/form-data'', Body = None\<rparr>"

section \<open>Notions used to state the properties\<close>

text \<open>
  \<open>prepend p r\<close> puts the errors \<open>p\<close> in front of a resulting error list.
  \<open>concat_results\<close> is the in-order concatenation of the error lists of several
  validations, or the first panic among them.  A \<open>Validate\<close> method \<open>appends_only\<close> when
  the list it returns is the list it was given followed by errors that do not depend on
  that list, as the method of \<open>Post\<close> does.  \<open>reporting_once\<close> is a method that does
  not: it reports that the request is invalid unless an error has been found already.
\<close>

text \<open>
  A schema is \<open>bindable\<close> when \<open>mapForm\<close> can set each of its embedded pointer fields and
  each of them points to a struct; \<open>no_empty_entry\<close> says that a raw map holds no key with
  an empty list, as the maps that \<open>ParseForm\<close> and \<open>ReadForm\<close> build do not.
\<close>

fun bindable_field :: "bool \<Rightarrow> StructField \<Rightarrow> bool"
  and bindable :: "bool \<Rightarrow> StructField list \<Rightarrow> bool" where
  "bindable_field ro (StructField name pkg t key bi anon) =
     (if KindOf t = KPtr \<and> anon then
        \<not> ro \<and> pkg = [] \<and>
        (case t of
           PtrTo (StructOf ifs) \<Rightarrow> bindable False ifs
         | PtrTo FileHeader \<Rightarrow> True
         | _ \<Rightarrow> False)
      else if KindOf t = KStruct then
        (case t of StructOf ifs \<Rightarrow> bindable (ro \<or> pkg \<noteq> []) ifs | _ \<Rightarrow> True)
      else True)"
| "bindable ro [] = True"
| "bindable ro (f # fs) = (bindable_field ro f \<and> bindable ro fs)"

definition no_empty_entry :: "(string \<rightharpoonup> 'a list) \<Rightarrow> bool" where
  "no_empty_entry m \<longleftrightarrow> (\<forall>k. m k \<noteq> Some [])"

definition prepend :: "Errors \<Rightarrow> panic + Errors \<Rightarrow> panic + Errors" where
  "prepend p r = (case r of Inl x \<Rightarrow> Inl x | Inr e \<Rightarrow> Inr (p @ e))"

fun concat_results :: "(panic + Errors) list \<Rightarrow> panic + Errors" where
  "concat_results [] = Inr []"
| "concat_results (r # rs) =
     (case r of
        Inl p \<Rightarrow> Inl p
      | Inr e \<Rightarrow> (case concat_results rs of Inl p \<Rightarrow> Inl p | Inr es \<Rightarrow> Inr (e @ es)))"

definition appends_only :: "Validator \<Rightarrow> bool" where
  "appends_only validator \<longleftrightarrow>
     (\<forall>t v validate errors.
        validator t v = Some validate \<longrightarrow> validate errors = errors @ validate [])"

definition reporting_once :: Validator where
  "reporting_once t v =
     Some (\<lambda>errs. if errs = []
                  then [\<lparr>FieldNames = [], Classification = Custom ''Invalid'',
                         Message = ''the request is invalid''\<rparr>]
                  else errs)"

section \<open>Binding: what mapForm does with a field\<close>

lemma ZeroFields_length [simp]: "length (ZeroFields fs) = length fs"
proof (induction fs)
  case Nil
  then show ?case by simp
next
  case (Cons f fs)
  then show ?case by (cases f) simp
qed



text \<open>When the loop returns, each field is what the loop body made of it.\<close>

lemma mapForm_fields_nth:
  "mapForm_fields lib ro fs vs form formfile errors = Inr vs' \<Longrightarrow> i < length fs \<Longrightarrow>
   mapForm_field lib ro (fs ! i) (vs ! i) form formfile errors = Inr (vs' ! i)"
proof (induction fs arbitrary: vs vs' i)
  case Nil
  then show ?case by simp
next
  case (Cons f fs)
  then show ?case by (cases i) (auto split: list.splits sum.splits)
qed



text \<open>
  Binding into the zero value of a bindable schema, from maps without empty entries, does
  not panic.
\<close>

lemma mapForm_leaf_returns:
  assumes "no_empty_entry form" "no_empty_entry formfile"
  shows "\<exists>v'. mapForm_leaf lib canSet t v key form formfile errors = Inr v'"
proof (cases "form key")
  case None
  show ?thesis
  proof (cases "formfile key")
    case n2: None
    then show ?thesis using None by (simp add: mapForm_leaf_def)
  next
    case (Some hs)
    then have "hs \<noteq> []" using assms(2) by (auto simp: no_empty_entry_def)
    then obtain h rest where "hs = h # rest" by (cases hs) auto
    then show ?thesis using None Some by (simp add: mapForm_leaf_def)
  qed
next
  case (Some xs)
  then have "xs \<noteq> []" using assms(1) by (auto simp: no_empty_entry_def)
  then obtain x rest where "xs = x # rest" by (cases xs) auto
  then show ?thesis using Some by (cases t) (simp_all add: mapForm_leaf_def)
qed

lemma mapForm_returns_aux:
  shows "bindable_field ro f \<Longrightarrow> v = Zero (Type f) \<Longrightarrow> no_empty_entry form \<Longrightarrow> no_empty_entry formfile \<Longrightarrow>
         \<exists>v'. mapForm_field lib ro f v form formfile errors = Inr v'"
    and "bindable ro fs \<Longrightarrow> vs = ZeroFields fs \<Longrightarrow> no_empty_entry form \<Longrightarrow> no_empty_entry formfile \<Longrightarrow>
         \<exists>vs'. mapForm_fields lib ro fs vs form formfile errors = Inr vs'"
proof (induction lib ro f v form formfile errors and lib ro fs vs form formfile errors
       rule: mapForm_field_mapForm_fields.induct)
  case (1 lib ro name pkg t key bi anon structField form formfile errors)
  note ne = "1.prems"(3,4)
  show ?case
  proof (cases "KindOf t = KPtr \<and> anon")
    case True
    then have s: "\<not> (ro \<or> pkg \<noteq> [])" using "1.prems"(1) by simp
    show ?thesis
    proof (cases t)
      case (PtrTo t')
      show ?thesis
      proof (cases t')
        case (StructOf ifs)
        have b: "bindable False ifs" using "1.prems"(1) True PtrTo StructOf by simp
        from "1.IH"(1)[OF True s PtrTo StructOf b refl ne]
        obtain ivs where "mapForm_fields lib False ifs (ZeroFields ifs) form formfile errors = Inr ivs"
          by blast
        then show ?thesis using True s PtrTo StructOf by (simp del: DeepEqual.simps Zero.simps)
      qed (use "1.prems"(1) True s PtrTo in simp_all)
    qed (use True "1.prems"(1) in simp_all)
  next
    case np: False
    show ?thesis
    proof (cases "KindOf t = KStruct")
      case True
      show ?thesis
      proof (cases t)
        case (StructOf ifs)
        have v: "structField = VStruct (ZeroFields ifs)" using "1.prems"(2) StructOf by simp
        have b: "bindable (ro \<or> pkg \<noteq> []) ifs" using "1.prems"(1) np True StructOf by simp
        from "1.IH"(2)[OF np True StructOf v b refl ne]
        obtain ivs where "mapForm_fields lib (ro \<or> pkg \<noteq> []) ifs (ZeroFields ifs) form formfile errors = Inr ivs"
          by blast
        then show ?thesis using np True StructOf v by simp
      qed (use np True in simp_all)
    next
      case False
      have "KindOf t = KPtr \<and> anon \<longleftrightarrow> False" using np by simp
      then show ?thesis using False mapForm_leaf_returns[OF ne] by (simp del: de_Morgan_conj)
    qed
  qed
next
  case (2 lib ro vs form formfile errors)
  show ?case by simp
next
  case (3 lib ro f fs vs form formfile errors)
  obtain name pkg t key bi anon where f: "f = StructField name pkg t key bi anon" by (cases f) auto
  have vs: "vs = Zero t # ZeroFields fs" using "3.prems"(2) f by simp
  have bf: "bindable_field ro f" and bfs: "bindable ro fs" using "3.prems"(1) by simp_all
  from "3.IH"(1)[OF vs bf _ "3.prems"(3,4)] f
  obtain v' where v': "mapForm_field lib ro f (Zero t) form formfile errors = Inr v'" by auto
  from "3.IH"(2)[OF vs v' bfs refl "3.prems"(3,4)]
  obtain vs' where "mapForm_fields lib ro fs (ZeroFields fs) form formfile errors = Inr vs'" by blast
  then show ?case using vs v' by simp
qed

lemma mapForm_returns:
  assumes "bindable False fs" and "no_empty_entry form" and "no_empty_entry formfile"
  shows "\<exists>vs'. mapForm lib (StructOf fs) (Zero (StructOf fs)) form formfile errors = Inr (VStruct vs')"
proof -
  from mapForm_returns_aux(2)[OF assms(1) refl assms(2,3)]
  obtain vs' where "mapForm_fields lib False fs (ZeroFields fs) form formfile errors = Inr vs'"
    by blast
  then show ?thesis by (simp add: mapForm_def)
qed


text \<open>
  Claim C4 as stated fails at a single value: for the slice field \<open>Ratings\<close> and the
  request \<open>rating=7\<close>, one value and not more than one, the field becomes the sequence
  \<open>[7]\<close>; coercing the first value as a scalar of the field's kind, a slice, would have
  left it nil.  The code asks for \<open>numElems > 0\<close>.
\<close>

theorem single_value_builds_slice:
  "\<not> 1 < length [''7''] \<and>
   mapForm lib0 (StructOf [StructField ''Ratings'' [] (SliceOf (Basic KInt)) ''rating'' [] False])
     (VStruct [VSlice None]) (map_of [(''rating'', [''7''])]) Map.empty [] =
     Inr (VStruct [VSlice (Some [VInt 7])]) \<and>
   fst (setWithProperType lib0 KSlice ''7'' (VSlice None) ''rating'' []) = VSlice None"
  by code_simp

text \<open>
  Claim C4, amended (repeated keys).  Let the walk over the fields of a struct that can be
  set return, and let a field of it be exported, with a non-empty key that the string map
  has with at least one value.  If the field is a slice, it becomes a sequence of as many
  elements as there are values, the element at each index being the zero element coerced
  from the value at that index, each on its own and in arrival order.  If the field is
  neither a slice nor a struct nor an embedded pointer, only the first value is taken and
  coerced as a scalar into the field.
\<close>

theorem repeated_key_binds_slice:
  assumes "mapForm_fields lib False fs vs form formfile errors = Inr vs'"
    and "i < length fs" and "fs ! i = StructField name [] t key bi anon"
    and "key \<noteq> []" and "form key = Some inputValue" and "inputValue \<noteq> []"
  shows "(t = SliceOf et \<longrightarrow>
            vs' ! i = VSlice (Some (map (\<lambda>s. fst (setWithProperType lib (KindOf et) s (Zero et)
                                                   key errors)) inputValue))) \<and>
         (KindOf t \<notin> {KSlice, KStruct} \<and> \<not> (KindOf t = KPtr \<and> anon) \<longrightarrow>
            vs' ! i = fst (setWithProperType lib (KindOf t) (hd inputValue) (vs ! i) key errors))"
proof -
  have step: "mapForm_field lib False (StructField name [] t key bi anon) (vs ! i)
                form formfile errors = Inr (vs' ! i)"
    using mapForm_fields_nth[OF assms(1,2)] assms(3) by simp
  obtain s rest where iv: "inputValue = s # rest"
    using assms(6) by (cases inputValue) auto
  show ?thesis
    using step assms(4,5) iv by (auto simp: mapForm_leaf_def)
qed

theorem repeated_key_binds_slice_witness:
  "mapForm_fields lib0 False
     [StructField ''Ratings'' [] (SliceOf (Basic KInt)) ''rating'' [] False,
      StructField ''Title'' [] (Basic KString) ''title'' [] False]
     [VSlice None, VString []]
     (map_of [(''rating'', [''1'', ''2'', ''3'']), (''title'', [''Hi'', ''Ho''])]) Map.empty [] =
     Inr [VSlice (Some [VInt 1, VInt 2, VInt 3]), VString ''Hi''] \<and>
   [VSlice (Some [VInt 1, VInt 2, VInt 3]), VString ''Hi''] ! 0 =
     VSlice (Some (map (\<lambda>s. fst (setWithProperType lib0 KInt s (VInt 0) ''rating'' []))
                     [''1'', ''2'', ''3''])) \<and>
   [VSlice (Some [VInt 1, VInt 2, VInt 3]), VString ''Hi''] ! 1 =
     fst (setWithProperType lib0 KString ''Hi'' (VString []) ''title'' [])"
proof -
  let ?fs = "[StructField ''Ratings'' [] (SliceOf (Basic KInt)) ''rating'' [] False,
              StructField ''Title'' [] (Basic KString) ''title'' [] False]"
  let ?form = "map_of [(''rating'', [''1'', ''2'', ''3'']), (''title'', [''Hi'', ''Ho''])]"
  have h: "mapForm_fields lib0 False ?fs [VSlice None, VString []] ?form Map.empty [] =
           Inr [VSlice (Some [VInt 1, VInt 2, VInt 3]), VString ''Hi'']"
    by code_simp
  show ?thesis
    using h
      repeated_key_binds_slice[OF h, of 0 "''Ratings''" "SliceOf (Basic KInt)" "''rating''"
        "[]" False "[''1'', ''2'', ''3'']" "Basic KInt"]
      repeated_key_binds_slice[OF h, of 1 "''Title''" "Basic KString" "''title''"
        "[]" False "[''Hi'', ''Ho'']"]
    by simp
qed




section \<open>Coercion errors and the handler's error list\<close>

text \<open>
  The error list that \<open>Form\<close> maps is the error of \<open>ParseForm\<close>, if any, followed by the
  errors of validating the bound value: binding contributes none.
\<close>

lemma Form_error_list:
  assumes "Form lib validator t req = Inr (errors, v)"
  shows "\<exists>verrs. Validate lib validator (PtrTo t) (VPtr (Some v)) = Inr verrs \<and>
           errors = (case ParseForm_error req of
                       None \<Rightarrow> []
                     | Some parseErr \<Rightarrow> [\<lparr>FieldNames = [], Classification = DeserializationError,
                                           Message = parseErr\<rparr>]) @ verrs"
  using assms
  by (auto simp: Form_def validateAndMap_def Add_def Let_def split: sum.splits option.splits)

text \<open>
  What \<open>setWithProperType\<close> does for a \<open>bool\<close> and for an \<open>int\<close>, seen from inside: the
  field it leaves and its own copy of the error list.
\<close>

lemma setWithProperType_Bool:
  "setWithProperType lib KBool ''on'' structField nameInTag errors = (VBool True, errors)"
  "setWithProperType lib KBool [] structField nameInTag errors = (structField, errors)"
  "val \<noteq> ''on'' \<Longrightarrow> val \<noteq> [] \<Longrightarrow> ParseBool val = Some True \<Longrightarrow>
     setWithProperType lib KBool val structField nameInTag errors = (VBool True, errors)"
  "val \<noteq> ''on'' \<Longrightarrow> val \<noteq> [] \<Longrightarrow> ParseBool val = Some False \<Longrightarrow>
     setWithProperType lib KBool val structField nameInTag errors = (structField, errors)"
  "val \<noteq> ''on'' \<Longrightarrow> val \<noteq> [] \<Longrightarrow> ParseBool val = None \<Longrightarrow>
     setWithProperType lib KBool val structField nameInTag errors =
       (structField, errors @ [\<lparr>FieldNames = [nameInTag], Classification = BooleanTypeError,
                                 Message = ''Value could not be parsed as boolean''\<rparr>])"
  by (simp_all add: setWithProperType_def ParseBool_def Add_def)

lemma setWithProperType_Int:
  assumes "valueKind \<in> {KInt, KInt8, KInt16, KInt32, KInt64}"
  shows "setWithProperType lib valueKind [] structField nameInTag errors = (VInt 0, errors)"
    and "val \<noteq> [] \<Longrightarrow> ParseInt val = (intVal, None) \<Longrightarrow>
         setWithProperType lib valueKind val structField nameInTag errors =
           (SetInt valueKind intVal, errors)"
    and "val \<noteq> [] \<Longrightarrow> ParseInt val = (intVal, Some err) \<Longrightarrow>
         setWithProperType lib valueKind val structField nameInTag errors =
           (structField, errors @ [\<lparr>FieldNames = [nameInTag], Classification = IntegerTypeError,
                                     Message = ''Value could not be parsed as integer''\<rparr>])"
proof -
  have z: "ParseInt ''0'' = (0, None)" by code_simp
  show "setWithProperType lib valueKind [] structField nameInTag errors = (VInt 0, errors)"
    using assms z by (auto simp: setWithProperType_def SetInt_def)
  show "val \<noteq> [] \<Longrightarrow> ParseInt val = (intVal, None) \<Longrightarrow>
         setWithProperType lib valueKind val structField nameInTag errors =
           (SetInt valueKind intVal, errors)"
    using assms by (auto simp: setWithProperType_def)
  show "val \<noteq> [] \<Longrightarrow> ParseInt val = (intVal, Some err) \<Longrightarrow>
         setWithProperType lib valueKind val structField nameInTag errors =
           (structField, errors @ [\<lparr>FieldNames = [nameInTag], Classification = IntegerTypeError,
                                     Message = ''Value could not be parsed as integer''\<rparr>])"
    using assms by (auto simp: setWithProperType_def Add_def)
qed

text \<open>
  Claim C3 (boolean coercion).  \<open>setWithProperType\<close> turns \<open>"on"\<close> into \<open>true\<close>, leaves the
  field alone on the empty string and on a parsed \<open>false\<close>, and on a string that is no
  boolean literal leaves the field alone and appends one boolean-type error to its own
  \<open>errors\<close>.  That list is a copy: bound through \<open>Form\<close>, the raw value \<open>notabool\<close>
  for a \<open>bool\<close> field tagged \<open>form:"flag"\<close> leaves the field \<open>false\<close> and the handler's
  error list empty, so the boolean-type error the claim expects is not reported.
\<close>

theorem Form_drops_boolean_type_error:
  "snd (setWithProperType lib0 KBool ''notabool'' (VBool False) ''flag'' []) =
     [\<lparr>FieldNames = [''flag''], Classification = BooleanTypeError,
       Message = ''Value could not be parsed as boolean''\<rparr>] \<and>
   Form lib0 (\<lambda>t v. None) (StructOf [StructField ''Flag'' [] (Basic KBool) ''flag'' [] False])
     (request [(''flag'', [''notabool''])]) = Inr ([], VStruct [VBool False])"
  by code_simp

text \<open>
  Claim C5 (integer coercion).  The empty string is read as \<open>0\<close> and a string that is no
  integer leaves the field alone; but the integer-type error is appended to the copy of
  the list that \<open>setWithProperType\<close> holds, so \<open>Form\<close> on the raw value \<open>abc\<close> for an
  \<open>int\<close> field tagged \<open>form:"n"\<close> reports no error.  And the string is parsed with 64 bits
  whatever the width of the field: \<open>300\<close> bound to an \<open>int8\<close> field is stored as \<open>44\<close>,
  with no error.
\<close>

theorem Form_drops_integer_type_error:
  "snd (setWithProperType lib0 KInt ''abc'' (VInt 0) ''n'' []) =
     [\<lparr>FieldNames = [''n''], Classification = IntegerTypeError,
       Message = ''Value could not be parsed as integer''\<rparr>] \<and>
   Form lib0 (\<lambda>t v. None) (StructOf [StructField ''N'' [] (Basic KInt) ''n'' [] False])
     (request [(''n'', [''abc''])]) = Inr ([], VStruct [VInt 0]) \<and>
   Form lib0 (\<lambda>t v. None) (StructOf [StructField ''Small'' [] (Basic KInt8) ''small'' [] False])
     (request [(''small'', [''300''])]) = Inr ([], VStruct [VInt 44])"
  by code_simp

section \<open>The Required rule\<close>

text \<open>
  The rule appends one error, of classification required and message \<open>Required\<close>, under
  the Go name of the field, exactly when the value is deeply equal to the zero value of
  the field's type; and the other rules never add an error of that classification.
\<close>

lemma Required_rule:
  "matchRule lib field fieldValue ''Required'' errors =
     Inr (if DeepEqual (Zero (Type field)) fieldValue
          then errors @ [\<lparr>FieldNames = [Name field], Classification = RequiredError,
                           Message = ''Required''\<rparr>]
          else errors)"
  by (simp add: matchRule_def Add_def)

lemma matchRule_not_Required:
  assumes "rule \<noteq> ''Required''" and "matchRule lib field v rule errors = Inr errors'"
  shows "filter (\<lambda>e. Classification e = RequiredError) errors' =
         filter (\<lambda>e. Classification e = RequiredError) errors"
  using assms by (auto simp: matchRule_def Add_def Let_def split: if_splits)

lemma no_required_error_without_rule:
  assumes "''Required'' \<notin> set rules" and "matchRules lib field v rules errors = Inr errors'"
  shows "filter (\<lambda>e. Classification e = RequiredError) errors' =
         filter (\<lambda>e. Classification e = RequiredError) errors"
  using assms
proof (induction rules arbitrary: errors)
  case Nil
  then show ?case by simp
next
  case (Cons rule rules)
  from Cons.prems(2) obtain e1 where e1: "matchRule lib field v rule errors = Inr e1"
    and rest: "matchRules lib field v rules e1 = Inr errors'"
    by (cases "matchRule lib field v rule errors") simp_all
  have "rule \<noteq> ''Required''" using Cons.prems(1) by auto
  from matchRule_not_Required[OF this e1] Cons.IH[OF _ rest] Cons.prems(1)
  show ?case by simp
qed

text \<open>
  Claim C1 (Required).  Validating the test's blog post with \<open>Id = 0\<close> (the case "ID
  required") gives exactly one error, of classification required and message
  \<open>Required\<close>; its field path is the Go name \<open>Id\<close> of the field, where the claim and the
  test expect the field's key \<open>id\<close>.
\<close>

theorem Required_error_names_Go_field:
  "validateStruct lib0 [] BlogPost
     (VStruct [VStruct [VString ''Behold The Title!'', VString ''And some content''], VInt 0,
        VString [], VSlice None, VStruct [VString ''Matt Holt'', VString []], VPtr None,
        VPtr None, VSlice None, VString []]) =
     Inr [\<lparr>FieldNames = [''Id''], Classification = RequiredError, Message = ''Required''\<rparr>] \<and>
   map formTag (case BlogPost of StructOf fs \<Rightarrow> fs | _ \<Rightarrow> []) ! 1 = ''id''"
  by code_simp

section \<open>Panics of the handlers\<close>

text \<open>A model of pointer kind makes each handler panic before anything else is done.\<close>

lemma pointer_model_panics:
  assumes "KindOf t = KPtr"
  shows "Form lib validator t req = Inl PointerModel \<and>
         MultipartForm lib validator t req = Inl PointerModel \<and>
         Json lib validator t req = Inl PointerModel"
  using assms by (simp add: Form_def MultipartForm_def Json_def ensureNotPointer_def)




section \<open>The size rules and the Url rule\<close>



text \<open>
  Code points, not bytes: \<open>h\<close>, \<open>e\<close> with an acute accent (two bytes in UTF-8), \<open>llo\<close> are
  six bytes and five code points, and pass \<open>MaxSize(5)\<close>.
\<close>

lemma MaxSize_counts_code_points:
  "length [CHR ''h'', CHR 0xC3, CHR 0xA9, CHR ''l'', CHR ''l'', CHR ''o''] = 6 \<and>
   matchRule lib0 (StructField ''Name'' [] (Basic KString) ''name'' ''MaxSize(5)'' False)
     (VString [CHR ''h'', CHR 0xC3, CHR 0xA9, CHR ''l'', CHR ''l'', CHR ''o'']) ''MaxSize(5)'' [] =
     Inr []"
  by code_simp

text \<open>
  Claim C7 as stated fails: after the Url rule has met an empty value, the rules that
  follow it for the field are still evaluated.  A string field tagged
  \<open>binding:"Url;Required"\<close> that holds the empty string gets the required error.
\<close>

theorem Url_empty_then_Required:
  "validateStruct lib0 []
     (StructOf [StructField ''Link'' [] (Basic KString) ''link'' ''Url;Required'' False])
     (VStruct [VString []]) =
   Inr [\<lparr>FieldNames = [''Link''], Classification = RequiredError, Message = ''Required''\<rparr>]"
  by code_simp

text \<open>
  Claim C7, amended (Url).  When the value of the field prints as the empty string, the
  Url rule records nothing and the rules after it are evaluated as if it had not been
  there.  When it prints as a non-empty string, the Url rule appends one Url error, under
  the field's name, if the string does not match the URL pattern, and nothing if it does.
\<close>

theorem Url_rule:
  "(Sprintf_v lib fieldValue = [] \<longrightarrow>
      matchRules lib field fieldValue (''Url'' # rules) errors =
      matchRules lib field fieldValue rules errors) \<and>
   (Sprintf_v lib fieldValue \<noteq> [] \<longrightarrow>
      matchRule lib field fieldValue ''Url'' errors =
        Inr (if MatchString urlPattern (Sprintf_v lib fieldValue) then errors
             else errors @ [\<lparr>FieldNames = [Name field], Classification = UrlError,
                              Message = ''Url''\<rparr>]))"
  by (simp add: matchRule_def Add_def Let_def HasPrefix_def)

theorem Url_rule_witness:
  "matchRules lib0 (StructField ''Url'' [] (Basic KString) ''Url'' ''Url'' False) (VString [])
     [''Url'', ''Required''] [] =
   matchRules lib0 (StructField ''Url'' [] (Basic KString) ''Url'' ''Url'' False) (VString [])
     [''Required''] [] \<and>
   matchRule lib0 (StructField ''Url'' [] (Basic KString) ''Url'' ''Url'' False)
     (VString ''http://123.456'') ''Url'' [] = Inr [] \<and>
   matchRule lib0 (StructField ''Url'' [] (Basic KString) ''Url'' ''Url'' False)
     (VString '','') ''Url'' [] =
     Inr [\<lparr>FieldNames = [''Url''], Classification = UrlError, Message = ''Url''\<rparr>]"
proof -
  have m1: "MatchString urlPattern ''http://123.456''" by code_simp
  have m2: "\<not> MatchString urlPattern '',''" by code_simp
  show ?thesis
    using Url_rule[of lib0 "VString []" _ "[''Required'']" "[]"]
      Url_rule[of lib0 "VString ''http://123.456''" _ "[]" "[]"]
      Url_rule[of lib0 "VString '',''" _ "[]" "[]"] m1 m2
    by (simp add: Sprintf_v_def)
qed

section \<open>Validation of a sequence\<close>

lemma prepend_simps [simp]:
  "prepend p (Inl x) = Inl x" "prepend p (Inr e) = Inr (p @ e)"
  by (simp_all add: prepend_def)

lemma matchRule_prepend:
  "matchRule lib f v rule (p @ errors) = prepend p (matchRule lib f v rule errors)"
  by (simp add: matchRule_def Add_def Let_def)

lemma matchRules_prepend:
  "matchRules lib f v rules (p @ errors) = prepend p (matchRules lib f v rules errors)"
proof (induction rules arbitrary: errors)
  case Nil
  then show ?case by simp
next
  case (Cons rule rules)
  show ?case
    by (cases "matchRule lib f v rule errors") (simp_all add: matchRule_prepend Cons.IH)
qed

text \<open>
  \<open>validateStruct\<close> only appends: errors put in front of the list it is given come out in
  front of the list it returns, and do not change what it adds or whether it panics.
\<close>

lemma validateStruct_prepend:
  shows "validateStruct lib (p @ errors) t obj = prepend p (validateStruct lib errors t obj)"
    and "validateStruct_fields lib (p @ errors) fs vals =
         prepend p (validateStruct_fields lib errors fs vals)"
proof (induction lib errors t obj and lib errors fs vals arbitrary: p and p
       rule: validateStruct_validateStruct_fields.induct)
  case (1 lib errors t obj)
  then show ?case by (auto split: ty.splits val.splits option.splits)
next
  case (8 lib errors name pkg t fo bi an fs vals)
  show ?case
  proof (cases "fo = ''-''")
    case True
    then show ?thesis using "8.IH"(1) by simp
  next
    case nf: False
    show ?thesis
    proof (cases vals)
      case None
      then show ?thesis using nf by simp
    next
      case (Some x)
      show ?thesis
      proof (cases x)
        case Nil
        then show ?thesis using nf Some by simp
      next
        case (Cons fieldValue vs)
        show ?thesis
        proof (cases "pkg \<noteq> []")
          case True
          then show ?thesis using "8.IH"(2)[OF nf Some Cons True] nf Some Cons by simp
        next
          case np: False
          let ?c = "KindOf t = KStruct \<or>
                    (KindOf t = KPtr \<and> \<not> DeepEqual (Zero t) fieldValue \<and> KindOf (Elem t) = KStruct)"
          let ?r = "\<lambda>errs. if ?c then validateStruct lib errs t fieldValue else Inr errs"
          have r: "?r (p @ errors) = prepend p (?r errors)"
            using "8.IH"(3)[OF nf Some Cons np] by simp
          show ?thesis
          proof (cases "?r errors")
            case (Inl e)
            then show ?thesis using r nf Some Cons np by simp
          next
            case r1: (Inr errors1)
            show ?thesis
            proof (cases "matchRules lib (StructField name pkg t fo bi an) fieldValue
                            (Split bi CHR '';'') errors1")
              case (Inl e)
              then show ?thesis
                using r r1 nf Some Cons np matchRules_prepend[of lib _ fieldValue _ p errors1]
                by simp
            next
              case r2: (Inr errors2)
              then show ?thesis
                using r r1 nf Some Cons np matchRules_prepend[of lib _ fieldValue _ p errors1]
                  "8.IH"(4)[OF nf Some Cons np r1 r2]
                by simp
            qed
          qed
        qed
      qed
    qed
  qed
qed simp_all

lemma validate_value_prepend:
  assumes "appends_only validator"
  shows "validate_value lib validator (p @ errors) t e =
         prepend p (validate_value lib validator errors t e)"
proof (cases "validateStruct lib errors t e")
  case (Inl x)
  then show ?thesis by (simp add: validate_value_def validateStruct_prepend)
next
  case (Inr errors')
  show ?thesis
  proof (cases "validator t e")
    case None
    then show ?thesis using Inr by (simp add: validate_value_def validateStruct_prepend)
  next
    case (Some validate)
    have "validate (p @ errors') = p @ validate errors'"
      using assms Some unfolding appends_only_def by (metis append.assoc)
    then show ?thesis using Inr Some by (simp add: validate_value_def validateStruct_prepend)
  qed
qed

lemma validate_elements_concat:
  assumes "appends_only validator"
  shows "validate_elements lib validator errors et es =
         prepend errors (concat_results (map (validate_value lib validator [] et) es))"
proof (induction es arbitrary: errors)
  case Nil
  then show ?case by simp
next
  case (Cons e es)
  have v: "validate_value lib validator errors et e =
           prepend errors (validate_value lib validator [] et e)"
    using validate_value_prepend[OF assms, of lib errors "[]" et e] by simp
  show ?case
  proof (cases "validate_value lib validator [] et e")
    case (Inl x)
    then show ?thesis using v by simp
  next
    case (Inr e1)
    then show ?thesis
      using v Cons.IH[of "errors @ e1"] Cons.IH[of e1]
      by (cases "concat_results (map (validate_value lib validator [] et) es)") simp_all
  qed
qed

text \<open>On a value that is no sequence, \<open>Validate\<close> is the two steps on that value.\<close>

lemma Validate_value:
  assumes "KindOf et \<notin> {KSlice, KArray}"
    and "KindOf et = KPtr \<longrightarrow> KindOf (Elem et) \<notin> {KSlice, KArray}"
  shows "Validate lib validator et e = validate_value lib validator [] et e"
  using assms
  by (cases et; cases e) (auto simp: Validate_def deref_def split: option.splits)

lemma appends_only_fixture: "appends_only fixture_validator"
  by (simp add: appends_only_def fixture_validator_def Post_Validate_def)

text \<open>
  Claim C8 as stated fails for a \<open>Validate\<close> method that looks at the list it is given.
  In the loop over a sequence each element's method gets the errors of the elements before
  it.  With \<open>reporting_once\<close>, two posts validated one by one give one error each, two in
  the concatenation, and validated as a sequence give one.
\<close>

theorem Validate_slice_not_concat:
  "Validate lib0 reporting_once (SliceOf Post)
      (VSlice (Some [VStruct [VString ''First Post'', VString []],
                     VStruct [VString ''Second Post'', VString []]])) \<noteq>
   concat_results (map (Validate lib0 reporting_once Post)
      [VStruct [VString ''First Post'', VString []], VStruct [VString ''Second Post'', VString []]])"
  by code_simp

text \<open>
  Claim C8, amended (list validation).  When every \<open>Validate\<close> method only appends, and
  the elements are themselves no sequences (nor pointers to one), validating a slice of
  \<open>K\<close> values gives the in-order concatenation of the error lists that validating each
  element on its own gives, each with its method run and its field paths as they are; and
  it panics when validating one of the elements does.
\<close>

theorem Validate_slice_concat:
  assumes "appends_only validator"
    and "KindOf et \<notin> {KSlice, KArray}"
    and "KindOf et = KPtr \<longrightarrow> KindOf (Elem et) \<notin> {KSlice, KArray}"
  shows "Validate lib validator (SliceOf et) (VSlice (Some es)) =
         concat_results (map (Validate lib validator et) es)"
proof -
  have "Validate lib validator (SliceOf et) (VSlice (Some es)) =
        validate_elements lib validator [] et es"
    by (simp add: Validate_def)
  also have "\<dots> = concat_results (map (validate_value lib validator [] et) es)"
    using validate_elements_concat[OF assms(1), of lib "[]" et es]
    by (cases "concat_results (map (validate_value lib validator [] et) es)") simp_all
  also have "map (validate_value lib validator [] et) es = map (Validate lib validator et) es"
    using Validate_value[OF assms(2,3)] by simp
  finally show ?thesis .
qed

theorem Validate_slice_concat_witness:
  "Validate lib0 fixture_validator (SliceOf Post)
      (VSlice (Some [VStruct [VString ''First Post'', VString ''And some content''],
                     VStruct [VString ''Too Short'', VString ''And some content'']])) =
   concat_results (map (Validate lib0 fixture_validator Post)
      [VStruct [VString ''First Post'', VString ''And some content''],
       VStruct [VString ''Too Short'', VString ''And some content'']]) \<and>
   Validate lib0 fixture_validator (SliceOf Post)
      (VSlice (Some [VStruct [VString ''First Post'', VString ''And some content''],
                     VStruct [VString ''Too Short'', VString ''And some content'']])) =
   Inr [\<lparr>FieldNames = [''title''], Classification = Custom ''LengthError'',
         Message = ''Life is too short''\<rparr>]"
proof -
  have k: "KindOf Post \<notin> {KSlice, KArray}"
    "KindOf Post = KPtr \<longrightarrow> KindOf (Elem Post) \<notin> {KSlice, KArray}"
    by (simp_all add: Post_def)
  have e: "Validate lib0 fixture_validator (SliceOf Post)
      (VSlice (Some [VStruct [VString ''First Post'', VString ''And some content''],
                     VStruct [VString ''Too Short'', VString ''And some content'']])) =
     Inr [\<lparr>FieldNames = [''title''], Classification = Custom ''LengthError'',
           Message = ''Life is too short''\<rparr>]"
    by code_simp
  show ?thesis
    using Validate_slice_concat[OF appends_only_fixture k] e by simp
qed

end
